theory Spec2Isabelle
  imports Main
begin

section \<open>JavaScript primitives used by the handlers\<close>

text \<open>
  The video controller reads its pagination parameters with
  \<^verbatim>\<open>parseInt(page) || 1\<close> and \<^verbatim>\<open>parseInt(limit) || 10\<close>.  A query parameter is
  either absent (\<^verbatim>\<open>undefined\<close>) or a string; the model covers strings of code units
  below 256.  The value of \<^verbatim>\<open>parseInt\<close> is \<^verbatim>\<open>NaN\<close> or an integer, kept here as
  an exact integer (no rounding to a double: a non-zero integer never rounds to
  zero or to \<^verbatim>\<open>NaN\<close>, which is all that \<^verbatim>\<open>||\<close> looks at).
\<close>

datatype jsnum = NaN | Num int

definition isWhiteSpace :: "char \<Rightarrow> bool" where
  "isWhiteSpace c =
     (let n = (of_char c :: nat)
      in n = 9 \<or> n = 10 \<or> n = 11 \<or> n = 12 \<or> n = 13 \<or> n = 32 \<or> n = 160)"

definition digitValue :: "char \<Rightarrow> nat option" where
  "digitValue c =
     (let n = (of_char c :: nat)
      in if 48 \<le> n \<and> n \<le> 57 then Some (n - 48)
         else if 97 \<le> n \<and> n \<le> 122 then Some (n - 87)
         else if 65 \<le> n \<and> n \<le> 90 then Some (n - 55)
         else None)"

definition isRadixDigit :: "nat \<Rightarrow> char \<Rightarrow> bool" where
  "isRadixDigit R c = (case digitValue c of None \<Rightarrow> False | Some d \<Rightarrow> d < R)"

definition radixValue :: "nat \<Rightarrow> string \<Rightarrow> int" where
  "radixValue R Z =
     foldl (\<lambda>acc c. acc * int R + int (case digitValue c of None \<Rightarrow> 0 | Some d \<Rightarrow> d)) 0 Z"

fun stripSign :: "string \<Rightarrow> int \<times> string" where
  "stripSign [] = (1, [])"
| "stripSign (c # cs) =
     (if c = CHR ''-'' then (- 1, cs)
      else if c = CHR ''+'' then (1, cs)
      else (1, c # cs))"

fun stripPrefix :: "string \<Rightarrow> nat \<times> string" where
  "stripPrefix (a # b # cs) =
     (if a = CHR ''0'' \<and> (b = CHR ''x'' \<or> b = CHR ''X'') then (16, cs)
      else (10, a # b # cs))"
| "stripPrefix cs = (10, cs)"

text \<open>
  \<^verbatim>\<open>parseInt(string)\<close> with no radix argument (ECMAScript, parseInt): leading white
  space is skipped, a sign is read, a \<^verbatim>\<open>0x\<close> prefix selects radix 16, and the
  longest run of digits of the radix is converted; an empty run gives \<^verbatim>\<open>NaN\<close>.
\<close>

definition parseInt :: "string \<Rightarrow> jsnum" where
  "parseInt inputString =
     (let S = dropWhile isWhiteSpace inputString;
          (sign, S1) = stripSign S;
          (R, S2) = stripPrefix S1;
          Z = takeWhile (isRadixDigit R) S2
      in if Z = [] then NaN else Num (sign * radixValue R Z))"

text \<open>An absent parameter is \<^verbatim>\<open>undefined\<close>, which \<^verbatim>\<open>parseInt\<close> first turns into a string.\<close>

definition parseIntParam :: "string option \<Rightarrow> jsnum" where
  "parseIntParam p =
     (case p of None \<Rightarrow> parseInt ''undefined'' | Some s \<Rightarrow> parseInt s)"

text \<open>\<^verbatim>\<open>x || d\<close> on a number: \<^verbatim>\<open>NaN\<close> and zero are falsy.\<close>

fun orDefault :: "jsnum \<Rightarrow> int \<Rightarrow> int" where
  "orDefault NaN d = d"
| "orDefault (Num n) d = (if n = 0 then d else n)"

text \<open>Truthiness of an optional string: \<^verbatim>\<open>undefined\<close> and the empty string are falsy.\<close>

fun truthy :: "string option \<Rightarrow> bool" where
  "truthy None = False"
| "truthy (Some s) = (s \<noteq> [])"

text \<open>Every array object is truthy, the empty array included.\<close>

definition truthyArray :: "'a list \<Rightarrow> bool" where
  "truthyArray xs = True"

section \<open>Data model\<close>

type_synonym oid = string

record image =
  url :: string
  publicId :: string

record user =
  username :: string
  email :: string
  fullname :: string
  avatar :: image
  coverImage :: "image option"
  password :: string
  refreshToken :: "string option"

record video =
  title :: string
  description :: string
  duration :: nat
  videoFile :: image
  thumbnail :: image
  publisher :: oid
  isPublished :: bool

text \<open>
  A view row, with the fields the handlers give it: the video, the video's
  publisher at view time (owner) and the requesting user (viewer,
  \<^verbatim>\<open>req.user?._id\<close>, possibly undefined); and the time the row was created.
  The creation and update times of users and videos are left out.
\<close>

record view =
  v_video :: oid
  v_owner :: oid
  v_viewer :: "oid option"
  v_createdAt :: nat

record subscription =
  subscriber :: oid
  channel :: oid

text \<open>
  The database (one collection per model) and the object storage, as one state
  that every handler takes and returns.  The users are kept as rows of id and
  fields, so that the unique indexes on username and email can be checked.
\<close>

record db =
  users :: "(oid \<times> user) list"
  videos :: "oid \<rightharpoonup> video"
  views :: "view list"
  subscriptions :: "subscription list"
  assets :: "string list"

section \<open>Errors, responses and requests\<close>

text \<open>
  \<^verbatim>\<open>new ApiError(statusCode, message)\<close> is the error the handlers raise themselves;
  \<^verbatim>\<open>new mongoose.Types.ObjectId(...)\<close> throws a \<^verbatim>\<open>BSONError\<close> carrying the library's
  message.
\<close>

datatype error = ApiError nat string | BSONError string

text \<open>
  \<^verbatim>\<open>new mongoose.Types.ObjectId(String(x))\<close>, as the current versions of the
  library have it: a string of 24 hexadecimal digits gives the identifier, any
  other string makes the constructor throw.  An identifier is kept as its
  lower-case hexadecimal string, the form in which the collections hold it.
\<close>

definition isHexDigit :: "char \<Rightarrow> bool" where
  "isHexDigit c =
     (let n = (of_char c :: nat)
      in (48 \<le> n \<and> n \<le> 57) \<or> (97 \<le> n \<and> n \<le> 102) \<or> (65 \<le> n \<and> n \<le> 70))"

definition toLowerHex :: "char \<Rightarrow> char" where
  "toLowerHex c =
     (let n = (of_char c :: nat)
      in if 65 \<le> n \<and> n \<le> 70 then char_of (n + 32) else c)"

definition isObjectId :: "string \<Rightarrow> bool" where
  "isObjectId x = (length x = 24 \<and> list_all isHexDigit x)"

definition ObjectId :: "string \<Rightarrow> error + oid" where
  "ObjectId x =
     (if isObjectId x then Inr (map toLowerHex x)
      else Inl (BSONError
             ''input must be a 24 character hex string, 12 byte Uint8Array, or an integer''))"

record video_summary =
  s_id :: oid
  s_title :: string
  s_duration :: nat
  s_thumbnail :: image
  s_viewsCount :: nat
  s_publisherAvatar :: image
  s_publisherUsername :: string
  s_publisherFullname :: string

text \<open>
  The container returned by \<^verbatim>\<open>aggregatePaginate\<close> under the custom labels
  \<^verbatim>\<open>docs: "videoList"\<close> and \<^verbatim>\<open>totalDocs: "totalVideos"\<close>.
\<close>

record page_container =
  videoList :: "video_summary list"
  totalVideos :: nat
  pg_limit :: int
  pg_page :: int

record video_detail =
  d_id :: oid
  d_title :: string
  d_description :: string
  d_duration :: nat
  d_videoFile :: image
  d_thumbnail :: image
  d_viewsCount :: nat
  d_publisherId :: oid
  d_publisherAvatar :: image
  d_publisherUsername :: string
  d_publisherFullname :: string
  d_subscribesCount :: nat
  d_subscribersCount :: nat
  d_isSubscribed :: bool

datatype payload =
    PageData page_container
  | DetailData video_detail
  | UpdatedVideo oid video
  | NoData

text \<open>\<^verbatim>\<open>new ApiResponse(statusCode, data, message)\<close>, sent with \<^verbatim>\<open>res.status(n).json(...)\<close>.\<close>

record api_response =
  statusCode :: nat
  data :: payload
  message :: string

record http_response =
  status :: nat
  json :: api_response

record query_params =
  q_page :: "string option"
  q_limit :: "string option"
  q_query :: "string option"
  q_channelId :: "string option"
  q_sortBy :: "string option"
  q_sortType :: "string option"

record request =
  query :: query_params
  videoId :: "string option"
  body_title :: "string option"
  body_description :: "string option"
  file_path :: "string option"
  user_id :: "oid option"

section \<open>The video listing: \<^verbatim>\<open>getVideos\<close>\<close>

record options =
  page :: int
  limit :: int

datatype stage =
    MatchTitleOrDescription string
  | MatchPublisher oid
  | LookupViewsCount
  | AddViewsCount
  | LookupPublisherDetails
  | UnwindPublisherDetails
  | ProjectSummary
  | Sort string int

record upload_result =
  up_url :: string
  up_public_id :: string
  up_duration :: nat

text \<open>
  What a request meets outside the handler: the clock, the object storage
  service (whether it honours a delete, what an upload returns) and the
  aggregation plugin.  These are parameters of every handler.
\<close>

record env =
  now :: nat
  destroy_ok :: "string \<Rightarrow> bool"
  upload :: "string \<Rightarrow> upload_result option"
  aggregatePaginate :: "db \<Rightarrow> stage list \<Rightarrow> options \<Rightarrow> page_container option"

definition getVideos_options :: "query_params \<Rightarrow> options" where
  "getVideos_options q =
     \<lparr> page = orDefault (parseIntParam (q_page q)) 1,
       limit = orDefault (parseIntParam (q_limit q)) 10 \<rparr>"

text \<open>The stages pushed after the two optional matches.\<close>

definition getVideos_fixedStages :: "query_params \<Rightarrow> stage list" where
  "getVideos_fixedStages q =
     [LookupViewsCount, AddViewsCount, LookupPublisherDetails, UnwindPublisherDetails,
      ProjectSummary,
      Sort (if truthy (q_sortBy q) then the (q_sortBy q) else ''createdAt'')
           (if q_sortType q = Some ''inc'' then 1 else - 1)]"

text \<open>
  Building the pipeline: the match on the publisher constructs an ObjectId from
  the \<^verbatim>\<open>channelId\<close> parameter, and that constructor can throw.
\<close>

definition getVideos_pipeline :: "query_params \<Rightarrow> error + stage list" where
  "getVideos_pipeline q =
     (let queryStages =
            (if truthy (q_query q) then [MatchTitleOrDescription (the (q_query q))] else [])
      in if truthy (q_channelId q)
         then (case ObjectId (the (q_channelId q)) of
                 Inl err \<Rightarrow> Inl err
               | Inr cid \<Rightarrow> Inr (queryStages @ [MatchPublisher cid] @ getVideos_fixedStages q))
         else Inr (queryStages @ getVideos_fixedStages q))"

definition getVideos_body :: "env \<Rightarrow> request \<Rightarrow> db \<Rightarrow> (error + http_response) \<times> db" where
  "getVideos_body e req s =
     (let q = query req;
          opts = getVideos_options q
      in case getVideos_pipeline q of
           Inl err \<Rightarrow> (Inl err, s)
         | Inr pipeline \<Rightarrow>
             (case aggregatePaginate e s pipeline opts of
                None \<Rightarrow>
                  (Inl (ApiError 500 ''Something went wrong while fetching all videos''), s)
              | Some c \<Rightarrow>
                  if \<not> truthyArray (videoList c)
                  then (Inl (ApiError 500 ''Something went wrong while fetching all videos''), s)
                  else (Inr \<lparr> status = 200,
                              json = \<lparr> statusCode = 200, data = PageData c,
                                       message = ''Videos fetched successfully'' \<rparr> \<rparr>, s)))"

section \<open>Collections and object storage\<close>

text \<open>
  The operations of the collections that the handlers call.  An id given to
  \<^verbatim>\<open>findById\<close>, \<^verbatim>\<open>findByIdAndUpdate\<close> or \<^verbatim>\<open>findByIdAndDelete\<close> is looked up as it is
  written.
\<close>

definition Video_findById :: "oid \<Rightarrow> db \<Rightarrow> video option" where
  "Video_findById vid s = videos s vid"

text \<open>\<^verbatim>\<open>findByIdAndUpdate(id, {$set: ...}, {new: true})\<close>: null when no row has the id.\<close>

definition Video_findByIdAndUpdate :: "oid \<Rightarrow> (video \<Rightarrow> video) \<Rightarrow> db \<Rightarrow> video option \<times> db" where
  "Video_findByIdAndUpdate vid upd s =
     (case videos s vid of
        None \<Rightarrow> (None, s)
      | Some v \<Rightarrow> (Some (upd v), s\<lparr>videos := (videos s)(vid \<mapsto> upd v)\<rparr>))"

definition Video_findByIdAndDelete :: "oid \<Rightarrow> db \<Rightarrow> video option \<times> db" where
  "Video_findByIdAndDelete vid s =
     (case videos s vid of
        None \<Rightarrow> (None, s)
      | Some v \<Rightarrow> (Some v, s\<lparr>videos := (videos s)(vid := None)\<rparr>))"

text \<open>\<^verbatim>\<open>video.save()\<close> on a fetched document writes it back and resolves to it.\<close>

definition Video_save :: "oid \<Rightarrow> video \<Rightarrow> db \<Rightarrow> video option \<times> db" where
  "Video_save vid v s = (Some v, s\<lparr>videos := (videos s)(vid \<mapsto> v)\<rparr>)"

fun removeFirst :: "('a \<Rightarrow> bool) \<Rightarrow> 'a list \<Rightarrow> 'a list" where
  "removeFirst P [] = []"
| "removeFirst P (x # xs) = (if P x then xs else x # removeFirst P xs)"

definition viewMatches :: "oid \<Rightarrow> oid \<Rightarrow> oid option \<Rightarrow> view \<Rightarrow> bool" where
  "viewMatches vid own viewer w =
     (v_video w = vid \<and> v_owner w = own \<and> v_viewer w = viewer)"

text \<open>\<^verbatim>\<open>findOneAndDelete(filter)\<close> removes the first row that matches, if there is one.\<close>

definition View_findOneAndDelete :: "oid \<Rightarrow> oid \<Rightarrow> oid option \<Rightarrow> db \<Rightarrow> db" where
  "View_findOneAndDelete vid own viewer s =
     s\<lparr>views := removeFirst (viewMatches vid own viewer) (views s)\<rparr>"

definition View_create :: "nat \<Rightarrow> oid \<Rightarrow> oid \<Rightarrow> oid option \<Rightarrow> db \<Rightarrow> view option \<times> db" where
  "View_create t vid own viewer s =
     (let w = \<lparr> v_video = vid, v_owner = own, v_viewer = viewer, v_createdAt = t \<rparr>
      in (Some w, s\<lparr>views := views s @ [w]\<rparr>))"

text \<open>\<^verbatim>\<open>deleteMany({video: id})\<close> resolves to a result object holding the number of rows removed.\<close>

definition View_deleteMany :: "oid \<Rightarrow> db \<Rightarrow> nat option \<times> db" where
  "View_deleteMany vid s =
     (Some (length (filter (\<lambda>w. v_video w = vid) (views s))),
      s\<lparr>views := filter (\<lambda>w. v_video w \<noteq> vid) (views s)\<rparr>)"

text \<open>
  Modelled from the spec: \<^verbatim>\<open>utils/cloudinary.js\<close> (\<^verbatim>\<open>deleteFromCloudinary\<close>,
  \<^verbatim>\<open>uploadOnCloudinary\<close>) is not among the sources.  The spec names them the
  object-storage delete and upload calls, and the handlers test their result for
  falsiness: a call that the storage service honours returns a result and changes
  the stored assets, a call that fails returns null and changes nothing.
\<close>

definition deleteFromCloudinary :: "env \<Rightarrow> string \<Rightarrow> db \<Rightarrow> string option \<times> db" where
  "deleteFromCloudinary e pid s =
     (if destroy_ok e pid then (Some ''ok'', s\<lparr>assets := removeAll pid (assets s)\<rparr>)
      else (None, s))"

definition uploadOnCloudinary :: "env \<Rightarrow> string \<Rightarrow> db \<Rightarrow> upload_result option \<times> db" where
  "uploadOnCloudinary e path s =
     (case upload e path of
        None \<Rightarrow> (None, s)
      | Some r \<Rightarrow> (Some r, s\<lparr>assets := up_public_id r # assets s\<rparr>))"

section \<open>Single video fetch and view recording: \<^verbatim>\<open>getVideo\<close>\<close>

text \<open>
  The aggregation of \<^verbatim>\<open>getVideo\<close>, given the ObjectId built from the \<^verbatim>\<open>videoId\<close>
  parameter: match by id, count the view rows of the video,
  join the publisher (the unwind drops a video whose publisher row is missing)
  with its subscription counts and the requester's subscription flag, project.
\<close>

definition getVideo_aggregate :: "oid option \<Rightarrow> oid \<Rightarrow> db \<Rightarrow> video_detail list" where
  "getVideo_aggregate requester vid s =
     (case videos s vid of
        None \<Rightarrow> []
      | Some v \<Rightarrow>
          (case map_of (users s) (publisher v) of
             None \<Rightarrow> []
           | Some u \<Rightarrow>
               [\<lparr> d_id = vid,
                  d_title = title v,
                  d_description = description v,
                  d_duration = duration v,
                  d_videoFile = videoFile v,
                  d_thumbnail = thumbnail v,
                  d_viewsCount = length (filter (\<lambda>w. v_video w = vid) (views s)),
                  d_publisherId = publisher v,
                  d_publisherAvatar = avatar u,
                  d_publisherUsername = username u,
                  d_publisherFullname = fullname u,
                  d_subscribesCount =
                    length (filter (\<lambda>x. subscriber x = publisher v) (subscriptions s)),
                  d_subscribersCount =
                    length (filter (\<lambda>x. channel x = publisher v) (subscriptions s)),
                  d_isSubscribed =
                    (0 < length (filter (\<lambda>x. channel x = publisher v \<and>
                                              Some (subscriber x) = requester)
                                        (subscriptions s))) \<rparr>]))"

definition getVideo_body :: "env \<Rightarrow> request \<Rightarrow> db \<Rightarrow> (error + http_response) \<times> db" where
  "getVideo_body e req s =
     (case videoId req of
        None \<Rightarrow> (Inl (ApiError 400 ''Video ID is required''), s)
      | Some x \<Rightarrow>
          if x = [] then (Inl (ApiError 400 ''Video ID is required''), s)
          else
            (case ObjectId x of
               Inl err \<Rightarrow> (Inl err, s)
             | Inr vid \<Rightarrow>
                 (case getVideo_aggregate (user_id req) vid s of
                    [] \<Rightarrow>
                      (Inl (ApiError 500 ''Something went wrong while fetching the video''), s)
                  | vd # _ \<Rightarrow>
                      (let s1 = View_findOneAndDelete (d_id vd) (d_publisherId vd)
                                  (user_id req) s;
                           (newView, s2) =
                              View_create (now e) (d_id vd) (d_publisherId vd) (user_id req) s1
                       in case newView of
                            None \<Rightarrow>
                              (Inl (ApiError 500
                                 ''Something went wrong while creating new view of the video''),
                               s2)
                          | Some w \<Rightarrow>
                              (Inr \<lparr> status = 200,
                                     json = \<lparr> statusCode = 200, data = DetailData vd,
                                              message = ''User fetched successfully'' \<rparr> \<rparr>,
                               s2)))))"

section \<open>Video mutation handlers\<close>

definition changeVideoFile_body :: "env \<Rightarrow> request \<Rightarrow> db \<Rightarrow> (error + http_response) \<times> db" where
  "changeVideoFile_body e req s =
     (if \<not> truthy (videoId req) then (Inl (ApiError 400 ''Video ID is required''), s)
      else if \<not> truthy (file_path req) then (Inl (ApiError 400 ''Video file is missing''), s)
      else
        (let vid = the (videoId req); videoFileLocalPath = the (file_path req)
         in case Video_findById vid s of
              None \<Rightarrow>
                (Inl (ApiError 500 ''Something went wrong while fetching the old video''), s)
            | Some oldVideo \<Rightarrow>
                (case deleteFromCloudinary e (publicId (videoFile oldVideo)) s of
                   (None, s1) \<Rightarrow>
                     (Inl (ApiError 500
                        ''Something went wrong while deleting the old video file from cloudinary''),
                      s1)
                 | (Some oldVideoFile, s1) \<Rightarrow>
                     (case uploadOnCloudinary e videoFileLocalPath s1 of
                        (None, s2) \<Rightarrow>
                          (Inl (ApiError 500
                             ''Something went wrong while uploading the new video file in cloudinary''),
                           s2)
                      | (Some newVideoFile, s2) \<Rightarrow>
                          (case Video_findByIdAndUpdate vid
                                  (\<lambda>v. v\<lparr>videoFile := \<lparr> url = up_url newVideoFile,
                                                         publicId = up_public_id newVideoFile \<rparr>\<rparr>) s2 of
                             (None, s3) \<Rightarrow>
                               (Inl (ApiError 500
                                  ''Something went wrong while updating the video file''), s3)
                           | (Some updatedVideo, s3) \<Rightarrow>
                               (Inr \<lparr> status = 200,
                                      json = \<lparr> statusCode = 200,
                                               data = UpdatedVideo vid updatedVideo,
                                               message = ''Video file updated successfully'' \<rparr> \<rparr>,
                                s3))))))"

definition changeThumbnail_body :: "env \<Rightarrow> request \<Rightarrow> db \<Rightarrow> (error + http_response) \<times> db" where
  "changeThumbnail_body e req s =
     (if \<not> truthy (videoId req) then (Inl (ApiError 400 ''Video ID is required''), s)
      else if \<not> truthy (file_path req) then (Inl (ApiError 400 ''Thumbnail is missing''), s)
      else
        (let vid = the (videoId req); thumbnailLocalPath = the (file_path req)
         in case Video_findById vid s of
              None \<Rightarrow>
                (Inl (ApiError 500 ''Something went wrong while fetching the old video''), s)
            | Some oldVideo \<Rightarrow>
                (case deleteFromCloudinary e (publicId (thumbnail oldVideo)) s of
                   (None, s1) \<Rightarrow>
                     (Inl (ApiError 500
                        ''Something went wrong while deleting the old thumbnail from cloudinary''),
                      s1)
                 | (Some oldThumbnail, s1) \<Rightarrow>
                     (case uploadOnCloudinary e thumbnailLocalPath s1 of
                        (None, s2) \<Rightarrow>
                          (Inl (ApiError 500
                             ''Something went wrong while uploading the new thumbnail in cloudinary''),
                           s2)
                      | (Some newThumbnail, s2) \<Rightarrow>
                          (case Video_findByIdAndUpdate vid
                                  (\<lambda>v. v\<lparr>thumbnail := \<lparr> url = up_url newThumbnail,
                                                         publicId = up_public_id newThumbnail \<rparr>\<rparr>) s2 of
                             (None, s3) \<Rightarrow>
                               (Inl (ApiError 500
                                  ''Something went wrong while updating the thumbnail''), s3)
                           | (Some updatedVideo, s3) \<Rightarrow>
                               (Inr \<lparr> status = 200,
                                      json = \<lparr> statusCode = 200,
                                               data = UpdatedVideo vid updatedVideo,
                                               message = ''Thumbnail updated successfully'' \<rparr> \<rparr>,
                                s3))))))"

definition changeTitle_body :: "env \<Rightarrow> request \<Rightarrow> db \<Rightarrow> (error + http_response) \<times> db" where
  "changeTitle_body e req s =
     (if \<not> truthy (videoId req) then (Inl (ApiError 400 ''Video ID is required''), s)
      else if \<not> truthy (body_title req) then (Inl (ApiError 400 ''Title is missing''), s)
      else
        (let vid = the (videoId req); new_title = the (body_title req)
         in case Video_findByIdAndUpdate vid (\<lambda>v. v\<lparr>title := new_title\<rparr>) s of
              (None, s1) \<Rightarrow>
                (Inl (ApiError 500 ''Something went wrong while updating the video title''), s1)
            | (Some updatedVideo, s1) \<Rightarrow>
                (Inr \<lparr> status = 200,
                       json = \<lparr> statusCode = 200, data = UpdatedVideo vid updatedVideo,
                                message = ''Video title updated successfully'' \<rparr> \<rparr>, s1)))"

definition changeDescription_body :: "env \<Rightarrow> request \<Rightarrow> db \<Rightarrow> (error + http_response) \<times> db" where
  "changeDescription_body e req s =
     (if \<not> truthy (videoId req) then (Inl (ApiError 400 ''Video ID is required''), s)
      else if \<not> truthy (body_description req)
      then (Inl (ApiError 400 ''description is missing''), s)
      else
        (let vid = the (videoId req); new_description = the (body_description req)
         in case Video_findByIdAndUpdate vid (\<lambda>v. v\<lparr>description := new_description\<rparr>) s of
              (None, s1) \<Rightarrow>
                (Inl (ApiError 500
                   ''Something went wrong while updating the video description''), s1)
            | (Some updatedVideo, s1) \<Rightarrow>
                (Inr \<lparr> status = 200,
                       json = \<lparr> statusCode = 200, data = UpdatedVideo vid updatedVideo,
                                message = ''Video description updated successfully'' \<rparr> \<rparr>, s1)))"

definition togglePublishStatus_body :: "env \<Rightarrow> request \<Rightarrow> db \<Rightarrow> (error + http_response) \<times> db" where
  "togglePublishStatus_body e req s =
     (if \<not> truthy (videoId req) then (Inl (ApiError 400 ''Video ID is required''), s)
      else
        (let vid = the (videoId req)
         in case Video_findById vid s of
              None \<Rightarrow> (Inl (ApiError 500 ''Something went wrong while fetching the video''), s)
            | Some v \<Rightarrow>
                (case Video_save vid (v\<lparr>isPublished := \<not> isPublished v\<rparr>) s of
                   (None, s1) \<Rightarrow>
                     (Inl (ApiError 500
                        ''Something went wrong while updating the video publish status''), s1)
                 | (Some updatedVideo, s1) \<Rightarrow>
                     (Inr \<lparr> status = 200,
                            json = \<lparr> statusCode = 200, data = UpdatedVideo vid updatedVideo,
                                     message = ''Publish status toggled successfully'' \<rparr> \<rparr>, s1))))"

text \<open>
  \<^verbatim>\<open>deleteVideo\<close> awaits the two storage deletions and drops their results: unlike
  \<^verbatim>\<open>changeVideoFile\<close> and \<^verbatim>\<open>changeThumbnail\<close> it has no check after them.
\<close>

definition deleteVideo_body :: "env \<Rightarrow> request \<Rightarrow> db \<Rightarrow> (error + http_response) \<times> db" where
  "deleteVideo_body e req s =
     (if \<not> truthy (videoId req) then (Inl (ApiError 400 ''Video ID is required''), s)
      else
        (let vid = the (videoId req)
         in case Video_findById vid s of
              None \<Rightarrow> (Inl (ApiError 500 ''Something went wrong while fetching the video''), s)
            | Some oldVideo \<Rightarrow>
                (let s1 = snd (deleteFromCloudinary e (publicId (videoFile oldVideo)) s);
                     s2 = snd (deleteFromCloudinary e (publicId (thumbnail oldVideo)) s1)
                 in case Video_findByIdAndDelete vid s2 of
                      (None, s3) \<Rightarrow>
                        (Inl (ApiError 500 ''Something went wrong while deleting the video''), s3)
                    | (Some deletedVideo, s3) \<Rightarrow>
                        (case View_deleteMany vid s3 of
                           (None, s4) \<Rightarrow>
                             (Inl (ApiError 500
                                ''Something went wrong while deleteing views of the video''), s4)
                         | (Some viewsOfTheOldVideo, s4) \<Rightarrow>
                             (Inr \<lparr> status = 200,
                                    json = \<lparr> statusCode = 200, data = NoData,
                                             message = ''Video deleted successfully'' \<rparr> \<rparr>, s4)))))"

section \<open>The wrapper \<^verbatim>\<open>asyncHandler\<close>\<close>

text \<open>
  A request handler writes responses through \<^verbatim>\<open>res\<close> and completes in one of three
  ways: the promise it returns is fulfilled, the promise is rejected with an
  error, or (a handler that is not an async function) it throws before returning.
  The wrapper \<^verbatim>\<open>Promise.resolve(requestHandler(req, res, next)).catch(error => next(error))\<close>
  adds a call of \<^verbatim>\<open>next\<close> for a rejection; a synchronous throw escapes it.
\<close>

datatype completion = Fulfilled | Rejected error | Threw error

record reply =
  written :: "http_response list"
  forwarded :: "error list"
  escaped :: "error option"

definition asyncHandler ::
  "('q \<Rightarrow> 's \<Rightarrow> (http_response list \<times> completion) \<times> 's) \<Rightarrow> 'q \<Rightarrow> 's \<Rightarrow> reply \<times> 's" where
  "asyncHandler requestHandler req s =
     (case requestHandler req s of
        ((ws, c), s') \<Rightarrow>
          (case c of
             Fulfilled \<Rightarrow> (\<lparr> written = ws, forwarded = [], escaped = None \<rparr>, s')
           | Rejected err \<Rightarrow> (\<lparr> written = ws, forwarded = [err], escaped = None \<rparr>, s')
           | Threw err \<Rightarrow> (\<lparr> written = ws, forwarded = [], escaped = Some err \<rparr>, s')))"

text \<open>
  An async function whose body either throws or ends with
  \<^verbatim>\<open>return res.status(n).json(...)\<close>: a throw rejects the promise, a return writes
  the response and fulfils it.
\<close>

definition async_function ::
  "('q \<Rightarrow> 's \<Rightarrow> (error + http_response) \<times> 's) \<Rightarrow> 'q \<Rightarrow> 's \<Rightarrow> (http_response list \<times> completion) \<times> 's" where
  "async_function body req s =
     (case body req s of
        (Inl err, s') \<Rightarrow> (([], Rejected err), s')
      | (Inr r, s') \<Rightarrow> (([r], Fulfilled), s'))"

definition getVideos :: "env \<Rightarrow> request \<Rightarrow> db \<Rightarrow> reply \<times> db" where
  "getVideos e = asyncHandler (async_function (getVideos_body e))"

definition getVideo :: "env \<Rightarrow> request \<Rightarrow> db \<Rightarrow> reply \<times> db" where
  "getVideo e = asyncHandler (async_function (getVideo_body e))"

definition changeVideoFile :: "env \<Rightarrow> request \<Rightarrow> db \<Rightarrow> reply \<times> db" where
  "changeVideoFile e = asyncHandler (async_function (changeVideoFile_body e))"

definition changeThumbnail :: "env \<Rightarrow> request \<Rightarrow> db \<Rightarrow> reply \<times> db" where
  "changeThumbnail e = asyncHandler (async_function (changeThumbnail_body e))"

definition changeTitle :: "env \<Rightarrow> request \<Rightarrow> db \<Rightarrow> reply \<times> db" where
  "changeTitle e = asyncHandler (async_function (changeTitle_body e))"

definition changeDescription :: "env \<Rightarrow> request \<Rightarrow> db \<Rightarrow> reply \<times> db" where
  "changeDescription e = asyncHandler (async_function (changeDescription_body e))"

definition togglePublishStatus :: "env \<Rightarrow> request \<Rightarrow> db \<Rightarrow> reply \<times> db" where
  "togglePublishStatus e = asyncHandler (async_function (togglePublishStatus_body e))"

definition deleteVideo :: "env \<Rightarrow> request \<Rightarrow> db \<Rightarrow> reply \<times> db" where
  "deleteVideo e = asyncHandler (async_function (deleteVideo_body e))"

section \<open>The error dispatcher\<close>

text \<open>
  Modelled from the spec: the error-handling middleware that \<^verbatim>\<open>next(error)\<close> reaches
  is not among the sources (\<^verbatim>\<open>app.js\<close> mounts the routers and registers none).
  The spec calls it the centralized dispatcher: failures bubble to it and it maps
  the error to the response envelope, \<^verbatim>\<open>{ success: false, message }\<close>, with an HTTP
  status drawn from the raised error's code (default 500).
\<close>

fun error_code :: "error \<Rightarrow> nat option" where
  "error_code (ApiError c m) = Some c"
| "error_code (BSONError m) = None"

fun error_message :: "error \<Rightarrow> string" where
  "error_message (ApiError c m) = m"
| "error_message (BSONError m) = m"

record error_response =
  err_status :: nat
  err_success :: bool
  err_message :: string

definition errorDispatcher :: "error \<Rightarrow> error_response" where
  "errorDispatcher err =
     \<lparr> err_status = (case error_code err of None \<Rightarrow> 500 | Some c \<Rightarrow> c),
       err_success = False,
       err_message = error_message err \<rparr>"

datatype sent = Answered http_response | Failed error_response

text \<open>
  What the client receives for a request served through the wrapper: the
  responses the handler wrote, then the dispatcher's response for each error
  passed to \<^verbatim>\<open>next\<close>.
\<close>

definition dispatch :: "reply \<Rightarrow> sent list" where
  "dispatch r = map Answered (written r) @ map (\<lambda>err. Failed (errorDispatcher err)) (forwarded r)"

section \<open>The user model: password hashing on save\<close>

text \<open>
  The hashing library is a parameter: \<^verbatim>\<open>bcrypt.hash(data, rounds)\<close> draws a salt
  (the third argument here) and returns the hash string,
  \<^verbatim>\<open>bcrypt.compare(data, encrypted)\<close> answers whether the hash was made from the data.
\<close>

record bcrypt =
  bcrypt_hash :: "string \<Rightarrow> nat \<Rightarrow> string \<Rightarrow> string"
  bcrypt_compare :: "string \<Rightarrow> string \<Rightarrow> bool"

text \<open>
  A document in memory: the field values, whether it has never been saved, and
  the paths assigned a new value since it was loaded or last saved.  Every path
  of a new document counts as modified.
\<close>

record user_document =
  doc :: user
  isNew :: bool
  modifiedPaths :: "string list"

definition isModified :: "user_document \<Rightarrow> string \<Rightarrow> bool" where
  "isModified d path = (isNew d \<or> path \<in> set (modifiedPaths d))"

definition User_findById :: "oid \<Rightarrow> db \<Rightarrow> user_document option" where
  "User_findById uid s =
     (case map_of (users s) uid of
        None \<Rightarrow> None
      | Some u \<Rightarrow> Some \<lparr> doc = u, isNew = False, modifiedPaths = [] \<rparr>)"



text \<open>The hook \<^verbatim>\<open>userSchema.pre("save", ...)\<close>.\<close>

definition pre_save :: "bcrypt \<Rightarrow> string \<Rightarrow> user_document \<Rightarrow> user_document" where
  "pre_save lib salt d =
     (if isModified d ''password''
      then d\<lparr>doc := (doc d)\<lparr>password := bcrypt_hash lib (password (doc d)) 10 salt\<rparr>\<rparr>
      else d)"

text \<open>
  How a save can fail: the schema's validation (the required strings
  \<^verbatim>\<open>username\<close>, \<^verbatim>\<open>email\<close>, \<^verbatim>\<open>fullname\<close> and \<^verbatim>\<open>password\<close> must not be empty; the error
  names the paths that fail; the required \<^verbatim>\<open>avatar\<close> is a field every user record
  here has), a unique index (\<^verbatim>\<open>_id\<close>, \<^verbatim>\<open>username\<close>, \<^verbatim>\<open>email\<close>), or an update that
  finds no row with the document's id.
\<close>

datatype save_error = ValidationError "string list" | DuplicateKeyError | DocumentNotFoundError

definition requiredPathsMissing :: "user \<Rightarrow> string list" where
  "requiredPathsMissing u =
     (if username u = [] then [''username''] else []) @
     (if email u = [] then [''email''] else []) @
     (if fullname u = [] then [''fullname''] else []) @
     (if password u = [] then [''password''] else [])"

text \<open>Another row holds the username or the email about to be written.\<close>

definition uniqueClash :: "oid \<Rightarrow> bool \<Rightarrow> bool \<Rightarrow> user \<Rightarrow> (oid \<times> user) list \<Rightarrow> bool" where
  "uniqueClash uid writesUsername writesEmail u rows =
     list_ex (\<lambda>(k, r). k \<noteq> uid \<and>
                ((writesUsername \<and> username r = username u) \<or>
                 (writesEmail \<and> email r = email u))) rows"

text \<open>An update writes the modified paths of the document into the stored row.\<close>

definition writeModified :: "string list \<Rightarrow> user \<Rightarrow> user \<Rightarrow> user" where
  "writeModified paths mem stored =
     \<lparr> username = (if ''username'' \<in> set paths then username mem else username stored),
       email = (if ''email'' \<in> set paths then email mem else email stored),
       fullname = (if ''fullname'' \<in> set paths then fullname mem else fullname stored),
       avatar = (if ''avatar'' \<in> set paths then avatar mem else avatar stored),
       coverImage = (if ''coverImage'' \<in> set paths then coverImage mem else coverImage stored),
       password = (if ''password'' \<in> set paths then password mem else password stored),
       refreshToken =
         (if ''refreshToken'' \<in> set paths then refreshToken mem else refreshToken stored) \<rparr>"

definition updateUser :: "oid \<Rightarrow> user \<Rightarrow> (oid \<times> user) list \<Rightarrow> (oid \<times> user) list" where
  "updateUser uid u rows = map (\<lambda>(k, r). if k = uid then (k, u) else (k, r)) rows"

text \<open>
  \<^verbatim>\<open>document.save()\<close>: validation runs first and rejects the save before the hook;
  then the hook runs; then a new document is inserted whole, while a loaded one
  has its modified paths written to its row (nothing is written when no path is
  modified).  A save that fails leaves the collection as it was.
\<close>

definition save ::
  "bcrypt \<Rightarrow> string \<Rightarrow> oid \<Rightarrow> user_document \<Rightarrow> db \<Rightarrow> (save_error + user_document) \<times> db" where
  "save lib salt uid d s =
     (case requiredPathsMissing (doc d) of
        p # ps \<Rightarrow> (Inl (ValidationError (p # ps)), s)
      | [] \<Rightarrow>
          (let d' = pre_save lib salt d
           in if isNew d'
              then (if uniqueClash uid True True (doc d') (users s) \<or>
                       map_of (users s) uid \<noteq> None
                    then (Inl DuplicateKeyError, s)
                    else (Inr (d'\<lparr>isNew := False, modifiedPaths := []\<rparr>),
                          s\<lparr>users := users s @ [(uid, doc d')]\<rparr>))
              else if modifiedPaths d' = [] then (Inr d', s)
              else (case map_of (users s) uid of
                      None \<Rightarrow> (Inl DocumentNotFoundError, s)
                    | Some stored \<Rightarrow>
                        if uniqueClash uid (''username'' \<in> set (modifiedPaths d'))
                             (''email'' \<in> set (modifiedPaths d')) (doc d') (users s)
                        then (Inl DuplicateKeyError, s)
                        else (Inr (d'\<lparr>modifiedPaths := []\<rparr>),
                              s\<lparr>users := updateUser uid
                                    (writeModified (modifiedPaths d') (doc d') stored)
                                    (users s)\<rparr>))))"

definition isPasswordCorrect :: "bcrypt \<Rightarrow> user_document \<Rightarrow> string \<Rightarrow> bool" where
  "isPasswordCorrect lib d pw = bcrypt_compare lib pw (password (doc d))"


section \<open>Notions used to state the properties\<close>

definition isDecimalDigit :: "char \<Rightarrow> bool" where
  "isDecimalDigit c = (48 \<le> (of_char c :: nat) \<and> (of_char c :: nat) \<le> 57)"

text \<open>
  A parameter is numeric text when it is written as a decimal number: an optional
  sign, one or more decimal digits and, optionally, a point followed by one or
  more decimal digits.
\<close>

definition numericText :: "string \<Rightarrow> bool" where
  "numericText s =
     (let ds = snd (stripSign s);
          whole = takeWhile isDecimalDigit ds;
          rest = dropWhile isDecimalDigit ds
      in whole \<noteq> [] \<and>
         (case rest of
            [] \<Rightarrow> True
          | c # frac \<Rightarrow> c = CHR ''.'' \<and> frac \<noteq> [] \<and> list_all isDecimalDigit frac))"

text \<open>
  A parameter has a leading integer when, after white space and an optional
  sign, its first character is a decimal digit.
\<close>

definition leadingInteger :: "string \<Rightarrow> bool" where
  "leadingInteger s =
     (case snd (stripSign (dropWhile isWhiteSpace s)) of
        [] \<Rightarrow> False
      | c # cs \<Rightarrow> isDecimalDigit c)"

text \<open>The view rows of a (video, viewer) pair, whatever their owner.\<close>

definition pairMatches :: "oid \<Rightarrow> oid option \<Rightarrow> view \<Rightarrow> bool" where
  "pairMatches vid viewer w = (v_video w = vid \<and> v_viewer w = viewer)"

subsection \<open>A small concrete system\<close>

definition sample_query :: query_params where
  "sample_query =
     \<lparr> q_page = None, q_limit = None, q_query = None, q_channelId = None,
       q_sortBy = None, q_sortType = None \<rparr>"

definition sample_request :: request where
  "sample_request =
     \<lparr> query = sample_query, videoId = Some ''v1'', body_title = None,
       body_description = None, file_path = None, user_id = Some ''u2'' \<rparr>"

definition sample_env :: env where
  "sample_env =
     \<lparr> now = 10, destroy_ok = (\<lambda>pid. True), upload = (\<lambda>path. None),
       aggregatePaginate = (\<lambda>s pipeline opts. None) \<rparr>"


definition alice :: user where
  "alice =
     \<lparr> username = ''alice'', email = ''alice@example.com'', fullname = ''Alice'',
       avatar = \<lparr> url = ''http://img/a1'', publicId = ''a1'' \<rparr>, coverImage = None,
       password = ''$2b$10$stored'', refreshToken = None \<rparr>"

definition sample_video :: video where
  "sample_video =
     \<lparr> title = ''A'', description = ''first'', duration = 60,
       videoFile = \<lparr> url = ''http://media/vf1'', publicId = ''vf1'' \<rparr>,
       thumbnail = \<lparr> url = ''http://media/th1'', publicId = ''th1'' \<rparr>,
       publisher = ''u1'', isPublished = True \<rparr>"

definition sample_view :: "nat \<Rightarrow> view" where
  "sample_view t =
     \<lparr> v_video = ''v1'', v_owner = ''u1'', v_viewer = Some ''u2'', v_createdAt = t \<rparr>"

definition sample_db :: db where
  "sample_db =
     \<lparr> users = [(''u1'', alice)], videos = [''v1'' \<mapsto> sample_video], views = [],
       subscriptions = [], assets = [''vf1'', ''th1''] \<rparr>"

text \<open>The same system with the video stored under an ObjectId, for the handlers that build one.\<close>

definition sample_id :: oid where
  "sample_id = ''65f1a2b3c4d5e6f7a8b9c0d1''"

definition fetch_request :: request where
  "fetch_request = sample_request\<lparr>videoId := Some sample_id\<rparr>"

definition fetch_db :: db where
  "fetch_db = sample_db\<lparr>videos := [sample_id \<mapsto> sample_video]\<rparr>"

definition fetch_view :: "nat \<Rightarrow> view" where
  "fetch_view t =
     \<lparr> v_video = sample_id, v_owner = ''u1'', v_viewer = Some ''u2'', v_createdAt = t \<rparr>"



text \<open>The stored user \<^verbatim>\<open>u1\<close> as a loaded document.\<close>

definition loaded_alice :: user_document where
  "loaded_alice = \<lparr> doc = alice, isNew = False, modifiedPaths = [] \<rparr>"

section \<open>Pagination defaults\<close>

lemma isRadixDigit_10: "isRadixDigit 10 c = isDecimalDigit c"
  by (auto simp: isRadixDigit_def digitValue_def isDecimalDigit_def Let_def)

lemma zero_is_digit: "isDecimalDigit (CHR ''0'')"
  by (simp add: isDecimalDigit_def)

lemma stripPrefix_no_digit:
  "(case S of [] \<Rightarrow> True | c # cs \<Rightarrow> \<not> isDecimalDigit c) \<Longrightarrow> stripPrefix S = (10, S)"
  using zero_is_digit by (cases S rule: stripPrefix.cases) auto

lemma parseInt_no_leading_integer:
  assumes "\<not> leadingInteger s"
  shows "parseInt s = NaN"
proof -
  obtain sg S1 where S1: "stripSign (dropWhile isWhiteSpace s) = (sg, S1)"
    by (cases "stripSign (dropWhile isWhiteSpace s)")
  from assms S1 have nd: "(case S1 of [] \<Rightarrow> True | c # cs \<Rightarrow> \<not> isDecimalDigit c)"
    by (simp add: leadingInteger_def split: list.splits)
  then have sp: "stripPrefix S1 = (10, S1)"
    by (rule stripPrefix_no_digit)
  from nd have "takeWhile (isRadixDigit 10) S1 = []"
    by (cases S1) (simp_all add: isRadixDigit_10)
  with S1 sp show ?thesis
    by (simp add: parseInt_def)
qed

lemma parseInt_undefined: "parseInt ''undefined'' = NaN"
  by code_simp

lemma parseInt_digit_prefix: "parseInt ''12abc'' = Num 12"
  by code_simp

lemma parseInt_zero: "parseInt ''0'' = Num 0"
  by code_simp

text \<open>
  C4, as stated, fails: the parameter \<^verbatim>\<open>page=12abc\<close> is present and is not numeric
  text, yet \<^verbatim>\<open>parseInt\<close> reads its digit prefix, so the page number is 12 and not
  the default 1.
\<close>

theorem getVideos_nonnumeric_page_counterexample:
  "\<not> numericText ''12abc'' \<and>
   page (getVideos_options (sample_query\<lparr>q_page := Some ''12abc''\<rparr>)) = 12"
  by (simp add: numericText_def isDecimalDigit_def getVideos_options_def parseIntParam_def
        parseInt_digit_prefix)

text \<open>
  C4, amended: when the page (limit) query parameter of \<^verbatim>\<open>getVideos\<close> is omitted or
  does not begin with an integer (after white space and an optional sign its
  first character is not a decimal digit), the page number is 1 (the page size
  is 10).
\<close>

theorem getVideos_defaults_without_integer:
  "((q_page q = None \<or> (\<exists>s. q_page q = Some s \<and> \<not> leadingInteger s))
      \<longrightarrow> page (getVideos_options q) = 1) \<and>
   ((q_limit q = None \<or> (\<exists>s. q_limit q = Some s \<and> \<not> leadingInteger s))
      \<longrightarrow> limit (getVideos_options q) = 10)"
  by (auto simp: getVideos_options_def parseIntParam_def parseInt_undefined
        parseInt_no_leading_integer)

theorem getVideos_defaults_without_integer_witness:
  "q_page (sample_query\<lparr>q_limit := Some ''ten''\<rparr>) = None \<and>
   \<not> leadingInteger ''ten'' \<and>
   page (getVideos_options (sample_query\<lparr>q_limit := Some ''ten''\<rparr>)) = 1 \<and>
   limit (getVideos_options (sample_query\<lparr>q_limit := Some ''ten''\<rparr>)) = 10"
proof -
  have a: "q_page (sample_query\<lparr>q_limit := Some ''ten''\<rparr>) = None"
    by (simp add: sample_query_def)
  have b: "q_limit (sample_query\<lparr>q_limit := Some ''ten''\<rparr>) = Some ''ten''"
    by simp
  have c: "\<not> leadingInteger ''ten''"
    by (simp add: leadingInteger_def isWhiteSpace_def isDecimalDigit_def)
  from getVideos_defaults_without_integer [of "sample_query\<lparr>q_limit := Some ''ten''\<rparr>"] a b c
  show ?thesis by blast
qed

text \<open>
  C10: in \<^verbatim>\<open>getVideos\<close>, a page or limit parameter that parses to 0 is replaced by
  the default (page 1, size 10), because the fallback \<^verbatim>\<open>||\<close> takes every falsy
  parsed value; the page size is never 0, so \<^verbatim>\<open>limit=0\<close> does not give an empty
  page, and neither is the page number.
\<close>

theorem getVideos_zero_falls_back:
  "(parseIntParam (q_page q) = Num 0 \<longrightarrow> page (getVideos_options q) = 1) \<and>
   (parseIntParam (q_limit q) = Num 0 \<longrightarrow> limit (getVideos_options q) = 10) \<and>
   page (getVideos_options q) \<noteq> 0 \<and> limit (getVideos_options q) \<noteq> 0"
  by (cases "parseIntParam (q_page q)"; cases "parseIntParam (q_limit q)")
     (simp_all add: getVideos_options_def)

theorem getVideos_zero_falls_back_witness:
  "parseIntParam (q_page (sample_query\<lparr>q_page := Some ''0'', q_limit := Some ''0''\<rparr>)) = Num 0 \<and>
   parseIntParam (q_limit (sample_query\<lparr>q_page := Some ''0'', q_limit := Some ''0''\<rparr>)) = Num 0 \<and>
   page (getVideos_options (sample_query\<lparr>q_page := Some ''0'', q_limit := Some ''0''\<rparr>)) = 1 \<and>
   limit (getVideos_options (sample_query\<lparr>q_page := Some ''0'', q_limit := Some ''0''\<rparr>)) = 10"
proof -
  let ?q = "sample_query\<lparr>q_page := Some ''0'', q_limit := Some ''0''\<rparr>"
  have a: "parseIntParam (q_page ?q) = Num 0" and b: "parseIntParam (q_limit ?q) = Num 0"
    by (simp_all add: parseIntParam_def parseInt_zero)
  from getVideos_zero_falls_back [of ?q] a b show ?thesis by blast
qed

section \<open>The result check of the listing\<close>







section \<open>Error forwarding by the wrapper\<close>

lemma async_function_throw_forwarded:
  "body req s = (Inl err, s') \<Longrightarrow>
   asyncHandler (async_function body) req s =
     (\<lparr> written = [], forwarded = [err], escaped = None \<rparr>, s')"
  by (simp add: asyncHandler_def async_function_def)

lemma async_function_return_written:
  "body req s = (Inr r, s') \<Longrightarrow>
   asyncHandler (async_function body) req s =
     (\<lparr> written = [r], forwarded = [], escaped = None \<rparr>, s')"
  by (simp add: asyncHandler_def async_function_def)

text \<open>The wrapper never adds a response: what is written is what the handler wrote.\<close>

lemma asyncHandler_writes_nothing:
  "written (fst (asyncHandler requestHandler req s)) = fst (fst (requestHandler req s))"
  by (simp add: asyncHandler_def split: prod.splits completion.splits)

lemma getVideos_body_no_container:
  "getVideos_body sample_env sample_request sample_db =
     (Inl (ApiError 500 ''Something went wrong while fetching all videos''), sample_db)"
  by (simp add: getVideos_body_def getVideos_pipeline_def sample_env_def sample_request_def
        sample_query_def Let_def)

text \<open>
  C9: for every request handler wrapped by \<^verbatim>\<open>asyncHandler\<close> and every input on
  which the handler's promise is rejected with an error, the wrapper writes no
  response of its own (the responses written are the handler's), passes exactly
  that error to \<^verbatim>\<open>next\<close> and lets nothing escape; the dispatcher that \<^verbatim>\<open>next\<close>
  reaches answers with the error envelope: \<^verbatim>\<open>success\<close> false, the error's message,
  and the error's code as status, 500 when it has none.
\<close>

theorem asyncHandler_forwards_rejection:
  assumes "requestHandler req s = ((ws, Rejected err), s')"
  shows "asyncHandler requestHandler req s =
           (\<lparr> written = ws, forwarded = [err], escaped = None \<rparr>, s') \<and>
         dispatch (fst (asyncHandler requestHandler req s)) =
           map Answered ws @
           [Failed \<lparr> err_status = (case error_code err of None \<Rightarrow> 500 | Some c \<Rightarrow> c),
                     err_success = False, err_message = error_message err \<rparr>]"
  using assms by (simp add: asyncHandler_def dispatch_def errorDispatcher_def)

theorem asyncHandler_forwards_rejection_witness:
  "getVideos sample_env sample_request sample_db =
     (\<lparr> written = [],
        forwarded = [ApiError 500 ''Something went wrong while fetching all videos''],
        escaped = None \<rparr>, sample_db) \<and>
   dispatch (fst (getVideos sample_env sample_request sample_db)) =
     [Failed \<lparr> err_status = 500, err_success = False,
               err_message = ''Something went wrong while fetching all videos'' \<rparr>]"
proof -
  have rejected:
    "async_function (getVideos_body sample_env) sample_request sample_db =
       (([], Rejected (ApiError 500 ''Something went wrong while fetching all videos'')),
        sample_db)"
    by (simp add: async_function_def getVideos_body_no_container)
  note fwd = asyncHandler_forwards_rejection
         [of "async_function (getVideos_body sample_env)" sample_request sample_db "[]"
             "ApiError 500 ''Something went wrong while fetching all videos''" sample_db,
          OF rejected]
  note a = fwd [THEN conjunct1] and b = fwd [THEN conjunct2]
  have b': "dispatch (fst (asyncHandler (async_function (getVideos_body sample_env))
                            sample_request sample_db)) =
     [Failed \<lparr> err_status = 500, err_success = False,
               err_message = ''Something went wrong while fetching all videos'' \<rparr>]"
    unfolding b by simp
  show ?thesis
    unfolding getVideos_def by (intro conjI a b')
qed

section \<open>View recording on fetch\<close>

lemma filter_removeFirst_single:
  "\<forall>x\<in>set xs. P x = Q x \<Longrightarrow> length (filter P xs) \<le> 1 \<Longrightarrow> filter P (removeFirst Q xs) = []"
proof (induction xs)
  case Nil
  then show ?case by simp
next
  case (Cons x xs)
  show ?case
  proof (cases "Q x")
    case True
    with Cons.prems have "P x" by simp
    with Cons.prems(2) have "filter P xs = []" by simp
    with True show ?thesis by simp
  next
    case False
    with Cons.prems have "\<not> P x" by simp
    with Cons False show ?thesis by simp
  qed
qed

text \<open>The number of rows that match after \<^verbatim>\<open>findOneAndDelete\<close>: one fewer, if there was any.\<close>

lemma length_filter_removeFirst:
  "length (filter Q (removeFirst Q xs)) = length (filter Q xs) - 1"
  by (induction xs) auto

lemma ObjectId_nonempty: "ObjectId x = Inr vid \<Longrightarrow> x \<noteq> []"
  by (auto simp: ObjectId_def isObjectId_def split: if_splits)

lemma ObjectId_sample_id: "ObjectId sample_id = Inr sample_id"
  unfolding sample_id_def by code_simp

lemma sample_id_nonempty: "sample_id \<noteq> []"
  by (simp add: sample_id_def)

text \<open>
  A fetch of a stored video whose publisher exists succeeds, and changes only
  the view rows.
\<close>

lemma getVideo_body_success:
  assumes "videoId req = Some x" and "ObjectId x = Inr vid"
    and "videos s vid = Some v" and "map_of (users s) (publisher v) = Some u"
  shows "\<exists>r. getVideo_body e req s =
           (Inr r, s\<lparr>views := removeFirst (viewMatches vid (publisher v) (user_id req)) (views s) @
                        [\<lparr> v_video = vid, v_owner = publisher v, v_viewer = user_id req,
                           v_createdAt = now e \<rparr>]\<rparr>)"
  using assms ObjectId_nonempty [OF assms(2)]
  by (simp add: getVideo_body_def getVideo_aggregate_def View_findOneAndDelete_def
        View_create_def Let_def)

text \<open>
  What one fetch does to the rows of the (video, owner, viewer) triple: with none
  before there is one after, with n > 0 before there are n after.
\<close>

lemma getVideo_triple_count:
  assumes "videoId req = Some x" and "ObjectId x = Inr vid"
    and "videos s vid = Some v" and "map_of (users s) (publisher v) = Some u"
  shows "\<exists>r s'. getVideo_body e req s = (Inr r, s') \<and>
           length (filter (viewMatches vid (publisher v) (user_id req)) (views s')) =
             max 1 (length (filter (viewMatches vid (publisher v) (user_id req)) (views s)))"
proof -
  let ?Q = "viewMatches vid (publisher v) (user_id req)"
  let ?w = "\<lparr> v_video = vid, v_owner = publisher v, v_viewer = user_id req,
              v_createdAt = now e \<rparr>"
  obtain r where f: "getVideo_body e req s =
      (Inr r, s\<lparr>views := removeFirst ?Q (views s) @ [?w]\<rparr>)"
    using getVideo_body_success [OF assms] by blast
  have "?Q ?w"
    by (simp add: viewMatches_def)
  then have "length (filter ?Q (removeFirst ?Q (views s) @ [?w])) =
               max 1 (length (filter ?Q (views s)))"
    by (simp add: length_filter_removeFirst)
  with f show ?thesis by simp
qed

text \<open>
  A stored video whose publisher has no user row is dropped by the unwind of the
  aggregation: the fetch raises the 500 and records no view.
\<close>

lemma getVideo_body_no_publisher:
  assumes "videoId req = Some x" and "ObjectId x = Inr vid"
    and "videos s vid = Some v" and "map_of (users s) (publisher v) = None"
  shows "getVideo_body e req s =
           (Inl (ApiError 500 ''Something went wrong while fetching the video''), s)"
  using assms ObjectId_nonempty [OF assms(2)]
  by (simp add: getVideo_body_def getVideo_aggregate_def)

text \<open>
  Two requests for the same video by the same viewer whose database operations
  interleave (both deletions before both insertions) leave two rows for the pair.
\<close>

lemma interleaved_fetches_leave_two_rows:
  "views (snd (View_create 11 sample_id ''u1'' (Some ''u2'')
           (snd (View_create 10 sample_id ''u1'' (Some ''u2'')
              (View_findOneAndDelete sample_id ''u1'' (Some ''u2'')
                 (View_findOneAndDelete sample_id ''u1'' (Some ''u2'') fetch_db))))))
   = [fetch_view 10, fetch_view 11]"
  by (simp add: View_create_def View_findOneAndDelete_def fetch_db_def sample_db_def
        fetch_view_def Let_def)

text \<open>
  C1, as stated, fails: when two view rows of the (video, owner, viewer) triple
  exist, each fetch removes only the first of them, so after two fetches (at times
  20 and 30) the pair has two view rows, one of them the first fetch's.
\<close>

theorem getVideo_twice_counterexample:
  "filter (pairMatches sample_id (Some ''u2''))
     (views (snd (getVideo_body (sample_env\<lparr>now := 30\<rparr>) fetch_request
        (snd (getVideo_body (sample_env\<lparr>now := 20\<rparr>) fetch_request
           (fetch_db\<lparr>views := [fetch_view 10, fetch_view 11]\<rparr>))))))
   = [fetch_view 20, fetch_view 30]"
  by (simp add: getVideo_body_def getVideo_aggregate_def View_findOneAndDelete_def
        View_create_def viewMatches_def pairMatches_def fetch_request_def sample_request_def
        sample_env_def fetch_db_def sample_db_def fetch_view_def sample_video_def alice_def
        ObjectId_sample_id sample_id_nonempty Let_def)

text \<open>
  C1, amended: \<^verbatim>\<open>getVideo\<close> deletes the first existing view row of the (video, owner,
  viewer) triple, if there is one, and then inserts a fresh one.  So for every
  stored video whose publisher has a user row, requested by its ObjectId, and
  every viewer: when at most one view row exists for the (video, viewer) pair
  and its owner is the video's publisher, fetching the video twice with the same
  viewer succeeds both times and leaves exactly one view row for the pair, the
  row of the second fetch, with the second fetch's timestamp.
\<close>

theorem getVideo_twice_single_view:
  assumes req: "videoId req = Some x" "ObjectId x = Inr vid"
    and stored: "videos s vid = Some v" "map_of (users s) (publisher v) = Some u"
    and owner: "\<forall>w\<in>set (views s). pairMatches vid (user_id req) w \<longrightarrow> v_owner w = publisher v"
    and one: "length (filter (pairMatches vid (user_id req)) (views s)) \<le> 1"
  shows "\<exists>r1 s1 r2 s2.
           getVideo_body e1 req s = (Inr r1, s1) \<and>
           getVideo_body e2 req s1 = (Inr r2, s2) \<and>
           filter (pairMatches vid (user_id req)) (views s2) =
             [\<lparr> v_video = vid, v_owner = publisher v, v_viewer = user_id req,
                v_createdAt = now e2 \<rparr>]"
proof -
  let ?P = "pairMatches vid (user_id req)"
  let ?Q = "viewMatches vid (publisher v) (user_id req)"
  let ?w1 = "\<lparr> v_video = vid, v_owner = publisher v, v_viewer = user_id req,
               v_createdAt = now e1 \<rparr>"
  let ?w2 = "\<lparr> v_video = vid, v_owner = publisher v, v_viewer = user_id req,
               v_createdAt = now e2 \<rparr>"
  let ?s1 = "s\<lparr>views := removeFirst ?Q (views s) @ [?w1]\<rparr>"
  let ?s2 = "?s1\<lparr>views := removeFirst ?Q (views ?s1) @ [?w2]\<rparr>"
  obtain r1 where f1: "getVideo_body e1 req s = (Inr r1, ?s1)"
    using getVideo_body_success [OF req stored] by blast
  have "videos ?s1 vid = Some v" "map_of (users ?s1) (publisher v) = Some u"
    using stored by simp_all
  then obtain r2 where f2: "getVideo_body e2 req ?s1 = (Inr r2, ?s2)"
    using getVideo_body_success [OF req, of ?s1 v u e2] by blast
  have PQ: "\<forall>w\<in>set (views s). ?P w = ?Q w"
    using owner by (auto simp: pairMatches_def viewMatches_def)
  have a: "filter ?P (removeFirst ?Q (views s)) = []"
    using filter_removeFirst_single [OF PQ one] .
  have P1: "?P ?w1" and P2: "?P ?w2"
    by (simp_all add: pairMatches_def)
  have v1: "filter ?P (views ?s1) = [?w1]"
    using a P1 by simp
  have in1: "\<forall>w\<in>set (views ?s1). ?P w = ?Q w"
  proof
    fix w assume "w \<in> set (views ?s1)"
    then show "?P w = ?Q w"
      using v1 by (auto simp: pairMatches_def viewMatches_def filter_eq_Cons_iff filter_empty_conv
          dest!: arg_cong [where f = set])
  qed
  have "filter ?P (removeFirst ?Q (views ?s1)) = []"
    by (rule filter_removeFirst_single [OF in1]) (simp only: v1, simp)
  then have "filter ?P (views ?s2) = [?w2]"
    using P2 by simp
  with f1 f2 show ?thesis by blast
qed

theorem getVideo_twice_single_view_witness:
  "\<exists>r1 s1 r2 s2.
     getVideo_body (sample_env\<lparr>now := 20\<rparr>) fetch_request
        (fetch_db\<lparr>views := [fetch_view 10]\<rparr>) = (Inr r1, s1) \<and>
     getVideo_body (sample_env\<lparr>now := 30\<rparr>) fetch_request s1 = (Inr r2, s2) \<and>
     filter (pairMatches sample_id (Some ''u2'')) (views s2) = [fetch_view 30]"
proof -
  let ?s = "fetch_db\<lparr>views := [fetch_view 10]\<rparr>"
  have h1: "videoId fetch_request = Some sample_id"
    and h3: "videos ?s sample_id = Some sample_video"
    and h4: "map_of (users ?s) (publisher sample_video) = Some alice"
    by (simp_all add: fetch_request_def fetch_db_def sample_db_def sample_video_def)
  have h5: "\<forall>w\<in>set (views ?s). pairMatches sample_id (user_id fetch_request) w \<longrightarrow>
                v_owner w = publisher sample_video"
    by (simp add: fetch_view_def sample_video_def)
  have h6: "length (filter (pairMatches sample_id (user_id fetch_request)) (views ?s)) \<le> 1"
    by simp
  have eq: "user_id fetch_request = Some ''u2''"
    "\<lparr> v_video = sample_id, v_owner = publisher sample_video, v_viewer = Some ''u2'',
       v_createdAt = now (sample_env\<lparr>now := 30\<rparr>) \<rparr> = fetch_view 30"
    by (simp_all add: fetch_request_def sample_request_def fetch_view_def sample_video_def)
  from getVideo_twice_single_view [OF h1 ObjectId_sample_id h3 h4 h5 h6,
      of "sample_env\<lparr>now := 20\<rparr>" "sample_env\<lparr>now := 30\<rparr>"]
  show ?thesis
    by (simp only: eq)
qed

section \<open>Deleting a video\<close>

text \<open>Whenever \<^verbatim>\<open>deleteVideo\<close> answers, the video row and the view rows of its id are gone.\<close>

lemma deleteVideo_success_rows:
  assumes "deleteVideo_body e req s = (Inr r, s')"
  shows "\<exists>vid. videoId req = Some vid \<and> videos s' vid = None \<and>
           views s' = filter (\<lambda>w. v_video w \<noteq> vid) (views s)"
  using assms
  by (cases "videoId req")
     (auto simp: deleteVideo_body_def Video_findById_def Video_findByIdAndDelete_def
        View_deleteMany_def deleteFromCloudinary_def Let_def split: if_splits option.splits)

text \<open>
  C2, as stated, fails: when the object storage does not honour the deletion of
  the thumbnail, \<^verbatim>\<open>deleteVideo\<close> still answers 200 and the thumbnail is still
  stored.
\<close>

theorem deleteVideo_asset_left_counterexample:
  "fst (deleteVideo_body (sample_env\<lparr>destroy_ok := (\<lambda>pid. pid = ''vf1'')\<rparr>)
          sample_request sample_db) =
     Inr \<lparr> status = 200,
           json = \<lparr> statusCode = 200, data = NoData,
                    message = ''Video deleted successfully'' \<rparr> \<rparr> \<and>
   assets (snd (deleteVideo_body (sample_env\<lparr>destroy_ok := (\<lambda>pid. pid = ''vf1'')\<rparr>)
                  sample_request sample_db)) = [''th1'']"
  by (simp add: deleteVideo_body_def Video_findById_def Video_findByIdAndDelete_def
        View_deleteMany_def deleteFromCloudinary_def Let_def sample_request_def sample_db_def
        sample_video_def sample_env_def)

text \<open>
  C2, amended: for every stored video, when the object storage honours both
  deletion calls, \<^verbatim>\<open>deleteVideo\<close> removes both media assets from the object storage,
  deletes the video row, and then deletes exactly the view rows of that video id,
  so that after the successful delete no view row of that video id is left.
\<close>

theorem deleteVideo_cascade:
  assumes "videoId req = Some vid" and "vid \<noteq> []" and "videos s vid = Some v"
    and "destroy_ok e (publicId (videoFile v))" and "destroy_ok e (publicId (thumbnail v))"
  shows "\<exists>s'. deleteVideo_body e req s =
                 (Inr \<lparr> status = 200,
                        json = \<lparr> statusCode = 200, data = NoData,
                                 message = ''Video deleted successfully'' \<rparr> \<rparr>, s') \<and>
              publicId (videoFile v) \<notin> set (assets s') \<and>
              publicId (thumbnail v) \<notin> set (assets s') \<and>
              videos s' vid = None \<and>
              filter (\<lambda>w. v_video w = vid) (views s') = [] \<and>
              views s' = filter (\<lambda>w. v_video w \<noteq> vid) (views s)"
  using assms
  by (simp add: deleteVideo_body_def Video_findById_def Video_findByIdAndDelete_def
        View_deleteMany_def deleteFromCloudinary_def Let_def)

theorem deleteVideo_cascade_witness:
  "\<exists>s'. deleteVideo_body sample_env sample_request
           (sample_db\<lparr>views := [sample_view 10, sample_view 11]\<rparr>) =
           (Inr \<lparr> status = 200,
                  json = \<lparr> statusCode = 200, data = NoData,
                           message = ''Video deleted successfully'' \<rparr> \<rparr>, s') \<and>
        ''vf1'' \<notin> set (assets s') \<and> ''th1'' \<notin> set (assets s') \<and>
        videos s' ''v1'' = None \<and>
        filter (\<lambda>w. v_video w = ''v1'') (views s') = []"
proof -
  have h1: "videoId sample_request = Some ''v1''" and h2: "''v1'' \<noteq> []"
    and h3: "videos (sample_db\<lparr>views := [sample_view 10, sample_view 11]\<rparr>) ''v1''
               = Some sample_video"
    by (simp_all add: sample_request_def sample_db_def)
  have ok: "destroy_ok sample_env (publicId (videoFile sample_video))"
    "destroy_ok sample_env (publicId (thumbnail sample_video))"
    by (simp_all add: sample_env_def)
  have ids: "publicId (videoFile sample_video) = ''vf1''"
    "publicId (thumbnail sample_video) = ''th1''"
    by (simp_all add: sample_video_def)
  from deleteVideo_cascade [OF h1 h2 h3 ok] ids show ?thesis
    by auto
qed

section \<open>Failing steps of the mutation handlers\<close>

text \<open>
  In \<^verbatim>\<open>changeVideoFile\<close> and \<^verbatim>\<open>changeThumbnail\<close> a storage deletion that fails ends the
  handler with its own error, and nothing is changed.
\<close>

lemma changeVideoFile_storage_failure:
  assumes "videoId req = Some vid" and "vid \<noteq> []" and "truthy (file_path req)"
    and "videos s vid = Some v" and "\<not> destroy_ok e (publicId (videoFile v))"
  shows "changeVideoFile_body e req s =
           (Inl (ApiError 500
              ''Something went wrong while deleting the old video file from cloudinary''), s)"
  using assms
  by (simp add: changeVideoFile_body_def Video_findById_def deleteFromCloudinary_def Let_def)

lemma changeThumbnail_storage_failure:
  assumes "videoId req = Some vid" and "vid \<noteq> []" and "truthy (file_path req)"
    and "videos s vid = Some v" and "\<not> destroy_ok e (publicId (thumbnail v))"
  shows "changeThumbnail_body e req s =
           (Inl (ApiError 500
              ''Something went wrong while deleting the old thumbnail from cloudinary''), s)"
  using assms
  by (simp add: changeThumbnail_body_def Video_findById_def deleteFromCloudinary_def Let_def)

text \<open>A fetch miss ends each handler that fetches first with an error.\<close>

lemma fetch_miss_raises:
  assumes "videoId req = Some vid" and "vid \<noteq> []" and "videos s vid = None"
  shows "deleteVideo_body e req s =
           (Inl (ApiError 500 ''Something went wrong while fetching the video''), s)"
    and "togglePublishStatus_body e req s =
           (Inl (ApiError 500 ''Something went wrong while fetching the video''), s)"
    and "truthy (body_title req) \<Longrightarrow> changeTitle_body e req s =
           (Inl (ApiError 500 ''Something went wrong while updating the video title''), s)"
    and "truthy (body_description req) \<Longrightarrow> changeDescription_body e req s =
           (Inl (ApiError 500 ''Something went wrong while updating the video description''), s)"
    and "truthy (file_path req) \<Longrightarrow> changeVideoFile_body e req s =
           (Inl (ApiError 500 ''Something went wrong while fetching the old video''), s)"
    and "truthy (file_path req) \<Longrightarrow> changeThumbnail_body e req s =
           (Inl (ApiError 500 ''Something went wrong while fetching the old video''), s)"
  using assms
  by (simp_all add: deleteVideo_body_def togglePublishStatus_body_def changeTitle_body_def
        changeDescription_body_def changeVideoFile_body_def changeThumbnail_body_def
        Video_findById_def Video_findByIdAndUpdate_def Let_def)

text \<open>
  C5 does not hold of \<^verbatim>\<open>deleteVideo\<close>: with an object storage that fails both
  deletions, the handler raises nothing, deletes the video row and answers 200
  "Video deleted successfully" while both assets are still stored; on the same
  storage failure \<^verbatim>\<open>changeVideoFile\<close> raises its error.
\<close>

theorem deleteVideo_ignores_storage_failure:
  "fst (deleteVideo_body (sample_env\<lparr>destroy_ok := (\<lambda>pid. False)\<rparr>) sample_request sample_db) =
     Inr \<lparr> status = 200,
           json = \<lparr> statusCode = 200, data = NoData,
                    message = ''Video deleted successfully'' \<rparr> \<rparr> \<and>
   assets (snd (deleteVideo_body (sample_env\<lparr>destroy_ok := (\<lambda>pid. False)\<rparr>)
                  sample_request sample_db)) = [''vf1'', ''th1''] \<and>
   videos (snd (deleteVideo_body (sample_env\<lparr>destroy_ok := (\<lambda>pid. False)\<rparr>)
                  sample_request sample_db)) ''v1'' = None \<and>
   fst (changeVideoFile_body (sample_env\<lparr>destroy_ok := (\<lambda>pid. False)\<rparr>)
          (sample_request\<lparr>file_path := Some ''/tmp/new.mp4''\<rparr>) sample_db) =
     Inl (ApiError 500 ''Something went wrong while deleting the old video file from cloudinary'')"
  by (simp add: deleteVideo_body_def changeVideoFile_body_def Video_findById_def
        Video_findByIdAndDelete_def View_deleteMany_def deleteFromCloudinary_def Let_def
        sample_request_def sample_db_def sample_video_def sample_env_def)

section \<open>Toggling the publish flag\<close>

text \<open>
  C7: for every stored video, applying \<^verbatim>\<open>togglePublishStatus\<close> twice succeeds both
  times; the published flag is negated after the first and back at its original
  value after the second (and the stored videos are as they were).
\<close>

theorem togglePublishStatus_twice:
  assumes "videoId req = Some vid" and "vid \<noteq> []" and "videos s vid = Some v"
  shows "\<exists>r1 s1 r2 s2.
           togglePublishStatus_body e1 req s = (Inr r1, s1) \<and>
           map_option isPublished (videos s1 vid) = Some (\<not> isPublished v) \<and>
           togglePublishStatus_body e2 req s1 = (Inr r2, s2) \<and>
           map_option isPublished (videos s2 vid) = Some (isPublished v) \<and>
           videos s2 = videos s"
  using assms
  by (auto simp: togglePublishStatus_body_def Video_findById_def Video_save_def Let_def)

theorem togglePublishStatus_twice_witness:
  "\<exists>r1 s1 r2 s2.
     togglePublishStatus_body sample_env sample_request sample_db = (Inr r1, s1) \<and>
     map_option isPublished (videos s1 ''v1'') = Some False \<and>
     togglePublishStatus_body sample_env sample_request s1 = (Inr r2, s2) \<and>
     map_option isPublished (videos s2 ''v1'') = Some True"
proof -
  have h1: "videoId sample_request = Some ''v1''" and h2: "''v1'' \<noteq> []"
    and h3: "videos sample_db ''v1'' = Some sample_video"
    by (simp_all add: sample_request_def sample_db_def)
  have p: "isPublished sample_video = True"
    by (simp add: sample_video_def)
  from togglePublishStatus_twice [OF h1 h2 h3, of sample_env sample_env] show ?thesis
    by (simp only: p not_True_eq_False) blast
qed

section \<open>Password hashing on save\<close>


lemma map_of_updateUser_other:
  "k \<noteq> uid \<Longrightarrow> map_of (updateUser uid u rows) k = map_of rows k"
  by (induction rows) (auto simp: updateUser_def)





text \<open>No save touches the row of another user.\<close>

lemma save_other_rows:
  assumes "save lib salt uid d s = (Inr d', s')" and "k \<noteq> uid"
  shows "map_of (users s') k = map_of (users s) k"
  using assms
  by (auto simp: save_def Let_def map_of_updateUser_other map_add_def
        split: list.splits if_splits option.splits)



lemma findById_alice: "User_findById ''u1'' sample_db = Some loaded_alice"
  by (simp add: User_findById_def sample_db_def loaded_alice_def)






end
